theory Spec2Isabelle
  imports Main "HOL-Library.Sublist"
begin

section \<open>JSON values as the Python handlers see them\<close>

text \<open>
  \<^verbatim>\<open>request.get_json()\<close> and \<^verbatim>\<open>nvidia_response.json()\<close> hand the handlers
  Python values built from JSON: \<^verbatim>\<open>None\<close>, \<^verbatim>\<open>bool\<close>, \<^verbatim>\<open>int\<close>, \<^verbatim>\<open>float\<close>,
  \<^verbatim>\<open>str\<close>, \<^verbatim>\<open>list\<close> and \<^verbatim>\<open>dict\<close> with string keys. A \<^verbatim>\<open>float\<close> is
  represented by its \<^verbatim>\<open>repr\<close> (which determines it), so no arithmetic on floats is
  needed: the handlers only test a float for truth and pass it on. A \<^verbatim>\<open>str\<close> is a
  \<^typ>\<open>string\<close> (its UTF-8 text: the handlers concatenate strings and test them for
  emptiness and containment, which read the same on code points and on UTF-8 bytes); a
  \<^verbatim>\<open>dict\<close> is an association list in insertion order, each key once, looked up from
  the front.
\<close>

datatype json =
    JNull
  | JBool bool
  | JInt int
  | JFloat string
  | JStr string
  | JArr "json list"
  | JObj "(string \<times> json) list"

text \<open>Python's truth value of such a value (\<^verbatim>\<open>bool(v)\<close>).\<close>

fun truthy :: "json \<Rightarrow> bool" where
  "truthy JNull = False"
| "truthy (JBool b) = b"
| "truthy (JInt i) = (i \<noteq> 0)"
| "truthy (JFloat r) = (r \<noteq> ''0.0'' \<and> r \<noteq> ''-0.0'')"
| "truthy (JStr s) = (s \<noteq> [])"
| "truthy (JArr xs) = (xs \<noteq> [])"
| "truthy (JObj kvs) = (kvs \<noteq> [])"

fun type_name :: "json \<Rightarrow> string" where
  "type_name JNull = ''NoneType''"
| "type_name (JBool b) = ''bool''"
| "type_name (JInt i) = ''int''"
| "type_name (JFloat r) = ''float''"
| "type_name (JStr s) = ''str''"
| "type_name (JArr xs) = ''list''"
| "type_name (JObj kvs) = ''dict''"

fun decimal :: "nat \<Rightarrow> string" where
  "decimal n =
     (if n < 10 then [char_of (48 + n)]
      else decimal (n div 10) @ [char_of (48 + n mod 10)])"

section \<open>Exceptions\<close>

text \<open>
  The \<^verbatim>\<open>except\<close> clauses of both handlers tell exceptions apart by two classes only,
  \<^verbatim>\<open>requests.exceptions.RequestException\<close> and \<^verbatim>\<open>json.JSONDecodeError\<close>, and read
  \<^verbatim>\<open>str(e)\<close>. An exception is therefore its membership in the two classes and its text:
  \<^item> \<open>RequestException\<close>: a \<^verbatim>\<open>RequestException\<close> that is no \<^verbatim>\<open>json.JSONDecodeError\<close>
    (\<^verbatim>\<open>ConnectionError\<close>, \<^verbatim>\<open>Timeout\<close>, \<^verbatim>\<open>HTTPError\<close>, ...);
  \<^item> \<open>JSONDecodeError\<close>: a \<^verbatim>\<open>json.JSONDecodeError\<close> that is no \<^verbatim>\<open>RequestException\<close>
    (what \<^verbatim>\<open>Response.json()\<close> raised in requests before 2.27 without simplejson);
  \<^item> \<open>RequestsJSONDecodeError\<close>: \<^verbatim>\<open>requests.exceptions.JSONDecodeError\<close>, which since
    requests 2.27 is what \<^verbatim>\<open>Response.json()\<close> raises and which derives from both
    \<^verbatim>\<open>InvalidJSONError\<close> (a \<^verbatim>\<open>RequestException\<close>) and \<^verbatim>\<open>json.JSONDecodeError\<close>;
  \<^item> \<open>OtherException\<close>: any other subclass of \<^verbatim>\<open>Exception\<close> (\<^verbatim>\<open>AttributeError\<close>,
    \<^verbatim>\<open>KeyError\<close>, \<^verbatim>\<open>TypeError\<close>, werkzeug's \<^verbatim>\<open>HTTPException\<close>, ...).
\<close>

datatype py_exn =
    RequestException string
  | JSONDecodeError string
  | RequestsJSONDecodeError string
  | OtherException string

fun str_exn :: "py_exn \<Rightarrow> string" where
  "str_exn (RequestException m) = m"
| "str_exn (JSONDecodeError m) = m"
| "str_exn (RequestsJSONDecodeError m) = m"
| "str_exn (OtherException m) = m"

fun isinstance_RequestException :: "py_exn \<Rightarrow> bool" where
  "isinstance_RequestException (RequestException m) = True"
| "isinstance_RequestException (RequestsJSONDecodeError m) = True"
| "isinstance_RequestException (JSONDecodeError m) = False"
| "isinstance_RequestException (OtherException m) = False"

fun isinstance_JSONDecodeError :: "py_exn \<Rightarrow> bool" where
  "isinstance_JSONDecodeError (JSONDecodeError m) = True"
| "isinstance_JSONDecodeError (RequestsJSONDecodeError m) = True"
| "isinstance_JSONDecodeError (RequestException m) = False"
| "isinstance_JSONDecodeError (OtherException m) = False"

section \<open>The Python operations the handlers apply to JSON values\<close>

text \<open>
  Each operation returns \<open>Inl\<close> of the exception where Python raises. The texts of the
  interpreter's own exceptions are those of CPython 3.11 to 3.13; only their class decides
  which \<^verbatim>\<open>except\<close> clause runs.
\<close>

definition dict_get :: "(string \<times> json) list \<Rightarrow> string \<Rightarrow> json" where
  "dict_get d k = (case map_of d k of None \<Rightarrow> JNull | Some v \<Rightarrow> v)"

definition quoted :: "string \<Rightarrow> string" where
  "quoted s = [CHR 0x27] @ s @ [CHR 0x27]"

text \<open>\<^verbatim>\<open>data.get(k)\<close>: only a \<^verbatim>\<open>dict\<close> has the method.\<close>

fun py_get :: "json \<Rightarrow> string \<Rightarrow> py_exn + json" where
  "py_get (JObj d) k = Inr (dict_get d k)"
| "py_get v k =
     Inl (OtherException
       (quoted (type_name v) @ '' object has no attribute '' @ quoted ''get''))"

text \<open>\<^verbatim>\<open>k in v\<close> for a string \<open>k\<close>: key of a dict, element of a list, substring of a str.\<close>

fun py_in :: "string \<Rightarrow> json \<Rightarrow> py_exn + bool" where
  "py_in k (JObj d) = Inr (k \<in> set (map fst d))"
| "py_in k (JArr xs) = Inr (JStr k \<in> set xs)"
| "py_in k (JStr s) = Inr (sublist k s)"
| "py_in k v =
     Inl (OtherException (''argument of type '' @ quoted (type_name v) @ '' is not iterable''))"

datatype subscript = Key string | Index nat

text \<open>
  \<^verbatim>\<open>v[i]\<close>. The keys the handlers use are the literals \<^verbatim>\<open>"choices"\<close>, \<^verbatim>\<open>"message"\<close>
  and \<^verbatim>\<open>"content"\<close>, whose \<^verbatim>\<open>repr\<close> (the text of a \<^verbatim>\<open>KeyError\<close>) is the key in
  single quotes; the only index is \<^verbatim>\<open>0\<close>. (The character a \<^verbatim>\<open>str\<close> gives at an index
  is never looked at: the next subscript, by a key, raises on it.)
\<close>

fun py_getitem :: "json \<Rightarrow> subscript \<Rightarrow> py_exn + json" where
  "py_getitem (JObj d) (Key k) =
     (case map_of d k of
        None \<Rightarrow> Inl (OtherException (quoted k))
      | Some v \<Rightarrow> Inr v)"
| "py_getitem (JObj d) (Index i) = Inl (OtherException (decimal i))"
| "py_getitem (JArr xs) (Index i) =
     (if i < length xs then Inr (xs ! i)
      else Inl (OtherException ''list index out of range''))"
| "py_getitem (JArr xs) (Key k) =
     Inl (OtherException ''list indices must be integers or slices, not str'')"
| "py_getitem (JStr s) (Index i) =
     (if i < length s then Inr (JStr [s ! i])
      else Inl (OtherException ''string index out of range''))"
| "py_getitem (JStr s) (Key k) =
     Inl (OtherException (''string indices must be integers, not '' @ quoted ''str''))"
| "py_getitem v i =
     Inl (OtherException (quoted (type_name v) @ '' object is not subscriptable''))"

section \<open>Requests, the provider and responses\<close>

text \<open>
  What \<^verbatim>\<open>request.get_json()\<close> does with the body of the POST is Flask's: it returns the
  parsed value (\<open>JsonBody\<close>; JSON \<^verbatim>\<open>null\<close> is \<^verbatim>\<open>None\<close>), or raises a werkzeug
  \<^verbatim>\<open>HTTPException\<close> with some text (\<open>BadBody\<close>: \<^verbatim>\<open>BadRequest\<close> for a body that does
  not parse, \<^verbatim>\<open>UnsupportedMediaType\<close> for a content type that is not JSON).
\<close>

datatype request = JsonBody json | BadBody string

fun get_json :: "request \<Rightarrow> py_exn + json" where
  "get_json (JsonBody v) = Inr v"
| "get_json (BadBody m) = Inl (OtherException m)"

text \<open>One call of \<^verbatim>\<open>requests.post(url, headers=..., json=..., timeout=...)\<close>.\<close>

record provider_call =
  url :: string
  headers :: "(string \<times> string) list"
  json_payload :: json
  timeout :: nat

text \<open>
  The \<^verbatim>\<open>requests.Response\<close> the call returns: its status line, its final URL, its
  \<^verbatim>\<open>.text\<close> and what \<^verbatim>\<open>.json()\<close> does (the parsed body, or the exception raised).
\<close>

record provider_response =
  status_code :: nat
  reason :: string
  resp_url :: string
  resp_text :: string
  resp_json :: "py_exn + json"

datatype post_result = Raises py_exn | Returns provider_response

text \<open>
  \<^verbatim>\<open>Response.raise_for_status()\<close> of requests: it builds a message for a status from
  400 to 499 and for one from 500 to 599, and raises an \<^verbatim>\<open>HTTPError\<close> (a
  \<^verbatim>\<open>RequestException\<close>) with it if there is one.
\<close>

definition http_error_msg :: "provider_response \<Rightarrow> string" where
  "http_error_msg r =
     (if 400 \<le> status_code r \<and> status_code r < 500 then
        decimal (status_code r) @ '' Client Error: '' @ reason r @ '' for url: '' @ resp_url r
      else if 500 \<le> status_code r \<and> status_code r < 600 then
        decimal (status_code r) @ '' Server Error: '' @ reason r @ '' for url: '' @ resp_url r
      else [])"

definition raise_for_status :: "provider_response \<Rightarrow> py_exn option" where
  "raise_for_status r =
     (if http_error_msg r \<noteq> [] then Some (RequestException (http_error_msg r)) else None)"

text \<open>
  What a handler runs in: the value of \<^verbatim>\<open>os.getenv("NVIDIA_API_KEY")\<close>, the interpreter's
  \<^verbatim>\<open>str()\<close> of a value that is not a \<^verbatim>\<open>str\<close> (used where an f-string formats such a
  value), and the provider behind \<^verbatim>\<open>requests.post\<close>.
\<close>

record runtime =
  getenv_NVIDIA_API_KEY :: "string option"
  py_str :: "json \<Rightarrow> string"
  requests_post :: "provider_call \<Rightarrow> post_result"

text \<open>The handler's answer, and the calls of \<^verbatim>\<open>requests.post\<close> it made, in order.\<close>

record http_response =
  status :: nat
  body :: json

record outcome =
  response :: http_response
  calls :: "provider_call list"

definition jsonify :: "(string \<times> json) list \<Rightarrow> nat \<Rightarrow> http_response" where
  "jsonify d code = \<lparr>status = code, body = JObj d\<rparr>"

text \<open>
  The state of a \<^verbatim>\<open>try\<close> body when it ends: it returned a response or raised, the local
  \<^verbatim>\<open>nvidia_response\<close> if it was bound, and the calls made.
\<close>

datatype completion = Return http_response | Raise py_exn

record frame =
  completion :: completion
  nvidia_response :: "provider_response option"
  sent :: "provider_call list"

definition returned :: "http_response \<Rightarrow> frame" where
  "returned r = \<lparr>completion = Return r, nvidia_response = None, sent = []\<rparr>"

definition raised :: "py_exn \<Rightarrow> frame" where
  "raised e = \<lparr>completion = Raise e, nvidia_response = None, sent = []\<rparr>"

definition try_bind :: "py_exn + 'a \<Rightarrow> ('a \<Rightarrow> frame) \<Rightarrow> frame" where
  "try_bind m f = (case m of Inl e \<Rightarrow> raised e | Inr v \<Rightarrow> f v)"

section \<open>The two handlers\<close>

definition NVIDIA_MODEL_NAME :: string where
  "NVIDIA_MODEL_NAME = ''meta/llama3-8b-instruct''"

definition NVIDIA_API_URL :: string where
  "NVIDIA_API_URL = ''https://integrate.api.nvidia.com/v1/chat/completions''"

definition api_key_error :: outcome where
  "api_key_error =
     \<lparr>response = jsonify [(''error'', JStr ''NVIDIA_API_KEY is not set in the .env file.'')] 500,
      calls = []\<rparr>"

definition make_headers :: "string \<Rightarrow> (string \<times> string) list" where
  "make_headers NVIDIA_API_KEY =
     [(''Authorization'', ''Bearer '' @ NVIDIA_API_KEY),
      (''Accept'', ''application/json''),
      (''Content-Type'', ''application/json'')]"

text \<open>A replacement field of an f-string: a \<^verbatim>\<open>str\<close> goes in as it is.\<close>

definition fmt :: "runtime \<Rightarrow> json \<Rightarrow> string" where
  "fmt rt v = (case v of JStr s \<Rightarrow> s | _ \<Rightarrow> py_str rt v)"

text \<open>The literal text of the two templates, between the replacement fields.\<close>

definition validator_text_0 :: string where
  "validator_text_0 =
     ''\<newline>'' @
     ''        You are an expert startup validator and business analyst. Your task is to evaluate the following startup idea comprehensively.\<newline>'' @
     ''\<newline>'' @
     ''        Startup Name: ''"

definition validator_text_1 :: string where
  "validator_text_1 =
     ''\<newline>'' @
     ''        Description: ''"

definition validator_text_2 :: string where
  "validator_text_2 =
     ''\<newline>'' @
     ''        Target Market: ''"

definition validator_text_3 :: string where
  "validator_text_3 =
     ''\<newline>'' @
     ''        Business Model: ''"

definition validator_text_4 :: string where
  "validator_text_4 =
     ''\<newline>'' @
     ''        Competitive Advantage: ''"

definition validator_text_5 :: string where
  "validator_text_5 =
     ''\<newline>'' @
     ''\<newline>'' @
     ''        Please provide a detailed assessment structured as follows, using Markdown for clear formatting:\<newline>'' @
     ''\<newline>'' @
     ''        **Startup Rating:** [X/10] - Provide a concise justification for this rating, highlighting key strengths and weaknesses.\<newline>'' @
     ''        **Sentiment Analysis:** [Overall sentiment of the idea's viability, e.g., 'Highly Positive', 'Positive', 'Neutral', 'Slightly Negative', 'Negative'] - Explain the reasons behind this sentiment based on the provided details, considering market trends and potential.\<newline>'' @
     ''        **Suggestions for Improvement:**\<newline>'' @
     ''        * Suggestion 1: Explain how this improves the idea, focusing on market fit, scalability, technical feasibility, or execution strategy.\<newline>'' @
     ''        * Suggestion 2: Another actionable suggestion with explanation.\<newline>'' @
     ''        * Suggestion 3: A third practical suggestion (if applicable).\<newline>'' @
     ''        **Relevant Ideas & References:**\<newline>'' @
     ''        * Idea 1 Name: Brief description of a similar, complementary, or adjacent business idea. (If relevant, include a real or hypothetical URL reference, e.g., 'https://www.example.com/related_project')\<newline>'' @
     ''        * Idea 2 Name: Brief description. (If relevant, include a real or hypothetical URL reference)\<newline>'' @
     ''        * Idea 3 Name: Brief description. (If relevant, include a real or hypothetical URL reference)\<newline>'' @
     ''        ''"

definition faq_text_0 :: string where
  "faq_text_0 =
     ''\<newline>'' @
     ''        You are an expert AI assistant specializing in creating comprehensive Frequently Asked Questions (FAQ) sections for new startups.\<newline>'' @
     ''        Your goal is to anticipate common questions potential customers, investors, or users might have about the startup.\<newline>'' @
     ''\<newline>'' @
     ''        Startup Name: ''"

definition faq_text_1 :: string where
  "faq_text_1 =
     ''\<newline>'' @
     ''        Startup Description: ''"

definition faq_text_2 :: string where
  "faq_text_2 =
     ''\<newline>'' @
     ''\<newline>'' @
     ''        Generate a list of 5-8 common and insightful FAQs with concise answers.\<newline>'' @
     ''        Format your response clearly using Markdown, with each question as a bold heading and the answer following directly.\<newline>'' @
     ''\<newline>'' @
     ''        Example Format:\<newline>'' @
     ''        **Q: What is [Startup Name]?**\<newline>'' @
     ''        A: [Concise answer about what it does and its core value proposition.]\<newline>'' @
     ''\<newline>'' @
     ''        **Q: How does [Startup Name] work?**\<newline>'' @
     ''        A: [Explanation of the basic mechanics or user flow.]\<newline>'' @
     ''\<newline>'' @
     ''        --- Start Generating FAQs ---\<newline>'' @
     ''        ''"

definition validator_prompt :: "string \<Rightarrow> string \<Rightarrow> string \<Rightarrow> string \<Rightarrow> string \<Rightarrow> string" where
  "validator_prompt startup_name description target_market business_model competitive_advantage =
     validator_text_0 @ startup_name @
     validator_text_1 @ description @
     validator_text_2 @ target_market @
     validator_text_3 @ business_model @
     validator_text_4 @ competitive_advantage @
     validator_text_5"

definition faq_prompt :: "string \<Rightarrow> string \<Rightarrow> string" where
  "faq_prompt startup_name startup_description =
     faq_text_0 @ startup_name @
     faq_text_1 @ startup_description @
     faq_text_2"

definition make_payload :: "string \<Rightarrow> int \<Rightarrow> json" where
  "make_payload prompt max_tokens =
     JObj [(''model'', JStr NVIDIA_MODEL_NAME),
           (''messages'', JArr [JObj [(''role'', JStr ''user''), (''content'', JStr prompt)]]),
           (''temperature'', JFloat ''0.7''),
           (''top_p'', JFloat ''0.9''),
           (''max_tokens'', JInt max_tokens),
           (''stream'', JBool False)]"

text \<open>
  \<^verbatim>\<open>response_data and "choices" in response_data and response_data["choices"]\<close>, as the
  \<^verbatim>\<open>if\<close> reads it: left to right, stopping at the first falsy operand.
\<close>

definition has_choices :: "json \<Rightarrow> py_exn + bool" where
  "has_choices response_data =
     (if \<not> truthy response_data then Inr False
      else case py_in ''choices'' response_data of
             Inl e \<Rightarrow> Inl e
           | Inr False \<Rightarrow> Inr False
           | Inr True \<Rightarrow>
               (case py_getitem response_data (Key ''choices'') of
                  Inl e \<Rightarrow> Inl e
                | Inr c \<Rightarrow> Inr (truthy c)))"

text \<open>\<^verbatim>\<open>response_data["choices"][0]["message"]["content"]\<close>.\<close>

definition first_choice_content :: "json \<Rightarrow> py_exn + json" where
  "first_choice_content response_data =
     (case py_getitem response_data (Key ''choices'') of
        Inl e \<Rightarrow> Inl e
      | Inr cs \<Rightarrow>
     (case py_getitem cs (Index 0) of
        Inl e \<Rightarrow> Inl e
      | Inr c \<Rightarrow>
     (case py_getitem c (Key ''message'') of
        Inl e \<Rightarrow> Inl e
      | Inr m \<Rightarrow> py_getitem m (Key ''content''))))"

text \<open>
  From \<^verbatim>\<open>response_data = nvidia_response.json()\<close> on: the \<^verbatim>\<open>if\<close> and its two
  \<^verbatim>\<open>return\<close>s. \<open>result_key\<close> is \<^verbatim>\<open>"ai_response"\<close> or \<^verbatim>\<open>"faq_content"\<close>.
\<close>

definition unwrap :: "string \<Rightarrow> json \<Rightarrow> completion" where
  "unwrap result_key response_data =
     (case has_choices response_data of
        Inl e \<Rightarrow> Raise e
      | Inr True \<Rightarrow>
          (case first_choice_content response_data of
             Inl e \<Rightarrow> Raise e
           | Inr ai_text \<Rightarrow>
               Return (jsonify [(''success'', JBool True), (result_key, ai_text)] 200))
      | Inr False \<Rightarrow>
          Return (jsonify [(''error'', JStr ''No valid response from NVIDIA API.''),
                           (''raw_response'', response_data)] 500))"

text \<open>
  The rest of the \<^verbatim>\<open>try\<close> body, the same in both handlers: \<^verbatim>\<open>requests.post\<close> once,
  \<^verbatim>\<open>raise_for_status()\<close>, \<^verbatim>\<open>.json()\<close>, and the unwrapping.
\<close>

definition call_provider :: "runtime \<Rightarrow> string \<Rightarrow> provider_call \<Rightarrow> frame" where
  "call_provider rt result_key c =
     (case requests_post rt c of
        Raises e \<Rightarrow> \<lparr>completion = Raise e, nvidia_response = None, sent = [c]\<rparr>
      | Returns r \<Rightarrow>
          (case raise_for_status r of
             Some e \<Rightarrow> \<lparr>completion = Raise e, nvidia_response = Some r, sent = [c]\<rparr>
           | None \<Rightarrow>
               (case resp_json r of
                  Inl e \<Rightarrow> \<lparr>completion = Raise e, nvidia_response = Some r, sent = [c]\<rparr>
                | Inr response_data \<Rightarrow>
                    \<lparr>completion = unwrap result_key response_data,
                     nvidia_response = Some r, sent = [c]\<rparr>)))"

text \<open>
  The three \<^verbatim>\<open>except\<close> clauses, in the order of the source (the same in both handlers;
  the \<^verbatim>\<open>print\<close> calls write to the server's log only and are taken to succeed).
\<close>

definition except_clauses :: "frame \<Rightarrow> outcome" where
  "except_clauses f =
     (case completion f of
        Return r \<Rightarrow> \<lparr>response = r, calls = sent f\<rparr>
      | Raise e \<Rightarrow>
          if isinstance_RequestException e then
            \<lparr>response = jsonify [(''error'', JStr (''NVIDIA API request failed: '' @ str_exn e)),
                                 (''details'', JStr (str_exn e))] 500,
             calls = sent f\<rparr>
          else if isinstance_JSONDecodeError e then
            (let response_text =
                   (case nvidia_response f of
                      Some r \<Rightarrow> resp_text r
                    | None \<Rightarrow> ''No response from API'')
             in \<lparr>response = jsonify [(''error'', JStr ''Invalid JSON response from NVIDIA API.''),
                                     (''raw_response'', JStr response_text)] 500,
                 calls = sent f\<rparr>)
          else
            \<lparr>response = jsonify [(''error'', JStr (''An unexpected error occurred: '' @ str_exn e)),
                                 (''details'', JStr (str_exn e))] 500,
             calls = sent f\<rparr>)"

text \<open>The arguments of \<^verbatim>\<open>requests.post\<close> in \<^verbatim>\<open>validate_startup\<close>.\<close>

definition validate_startup_call ::
  "runtime \<Rightarrow> string \<Rightarrow> json \<Rightarrow> json \<Rightarrow> json \<Rightarrow> json \<Rightarrow> json \<Rightarrow> provider_call" where
  "validate_startup_call rt NVIDIA_API_KEY startup_name description target_market business_model
       competitive_advantage =
     \<lparr>url = NVIDIA_API_URL,
      headers = make_headers NVIDIA_API_KEY,
      json_payload =
        make_payload
          (validator_prompt (fmt rt startup_name) (fmt rt description) (fmt rt target_market)
             (fmt rt business_model) (fmt rt competitive_advantage))
          1024,
      timeout = 60\<rparr>"

definition validate_startup_try :: "runtime \<Rightarrow> string \<Rightarrow> request \<Rightarrow> frame" where
  "validate_startup_try rt NVIDIA_API_KEY request =
     try_bind (get_json request) (\<lambda>data.
     try_bind (py_get data ''startupName'') (\<lambda>startup_name.
     try_bind (py_get data ''description'') (\<lambda>description.
     try_bind (py_get data ''targetMarket'') (\<lambda>target_market.
     try_bind (py_get data ''businessModel'') (\<lambda>business_model.
     try_bind (py_get data ''competitiveAdvantage'') (\<lambda>competitive_advantage.
       if \<not> list_all truthy
              [startup_name, description, target_market, business_model, competitive_advantage]
       then returned (jsonify [(''error'', JStr ''Missing one or more required startup details.'')] 400)
       else
         call_provider rt ''ai_response''
           (validate_startup_call rt NVIDIA_API_KEY startup_name description target_market
              business_model competitive_advantage)))))))"

definition validate_startup :: "runtime \<Rightarrow> request \<Rightarrow> outcome" where
  "validate_startup rt request =
     (case getenv_NVIDIA_API_KEY rt of
        None \<Rightarrow> api_key_error
      | Some NVIDIA_API_KEY \<Rightarrow>
          if NVIDIA_API_KEY = [] then api_key_error
          else except_clauses (validate_startup_try rt NVIDIA_API_KEY request))"

text \<open>The arguments of \<^verbatim>\<open>requests.post\<close> in \<^verbatim>\<open>generate_faq\<close>.\<close>

definition generate_faq_call :: "runtime \<Rightarrow> string \<Rightarrow> json \<Rightarrow> json \<Rightarrow> provider_call" where
  "generate_faq_call rt NVIDIA_API_KEY startup_name startup_description =
     \<lparr>url = NVIDIA_API_URL,
      headers = make_headers NVIDIA_API_KEY,
      json_payload =
        make_payload (faq_prompt (fmt rt startup_name) (fmt rt startup_description)) 1000,
      timeout = 60\<rparr>"

definition generate_faq_try :: "runtime \<Rightarrow> string \<Rightarrow> request \<Rightarrow> frame" where
  "generate_faq_try rt NVIDIA_API_KEY request =
     try_bind (get_json request) (\<lambda>data.
     try_bind (py_get data ''startupName'') (\<lambda>startup_name.
     try_bind (py_get data ''startupDescription'') (\<lambda>startup_description.
       if \<not> list_all truthy [startup_name, startup_description]
       then returned (jsonify [(''error'', JStr ''Missing startup name or description.'')] 400)
       else
         call_provider rt ''faq_content''
           (generate_faq_call rt NVIDIA_API_KEY startup_name startup_description))))"

definition generate_faq :: "runtime \<Rightarrow> request \<Rightarrow> outcome" where
  "generate_faq rt request =
     (case getenv_NVIDIA_API_KEY rt of
        None \<Rightarrow> api_key_error
      | Some NVIDIA_API_KEY \<Rightarrow>
          if NVIDIA_API_KEY = [] then api_key_error
          else except_clauses (generate_faq_try rt NVIDIA_API_KEY request))"

section \<open>Vocabulary of the properties\<close>

text \<open>The keys each handler reads from the request body, in the order of the source.\<close>

definition validate_startup_fields :: "string list" where
  "validate_startup_fields =
     [''startupName'', ''description'', ''targetMarket'', ''businessModel'', ''competitiveAdvantage'']"

definition generate_faq_fields :: "string list" where
  "generate_faq_fields = [''startupName'', ''startupDescription'']"

text \<open>The call each handler makes for a request body that is the dict \<open>d\<close>.\<close>

definition validate_startup_sends :: "runtime \<Rightarrow> string \<Rightarrow> (string \<times> json) list \<Rightarrow> provider_call" where
  "validate_startup_sends rt NVIDIA_API_KEY d =
     validate_startup_call rt NVIDIA_API_KEY (dict_get d ''startupName'') (dict_get d ''description'')
       (dict_get d ''targetMarket'') (dict_get d ''businessModel'')
       (dict_get d ''competitiveAdvantage'')"

definition generate_faq_sends :: "runtime \<Rightarrow> string \<Rightarrow> (string \<times> json) list \<Rightarrow> provider_call" where
  "generate_faq_sends rt NVIDIA_API_KEY d =
     generate_faq_call rt NVIDIA_API_KEY (dict_get d ''startupName'')
       (dict_get d ''startupDescription'')"


fun is_dict :: "json \<Rightarrow> bool" where
  "is_dict (JObj d) = True"
| "is_dict v = False"

section \<open>Example inputs\<close>

text \<open>A process without the credential, and one with it whose provider always answers \<open>p\<close>.\<close>

definition runtime_no_key :: runtime where
  "runtime_no_key =
     \<lparr>getenv_NVIDIA_API_KEY = None,
      py_str = type_name,
      requests_post = (\<lambda>c. Raises (RequestException ''connection refused''))\<rparr>"

definition runtime_with :: "post_result \<Rightarrow> runtime" where
  "runtime_with p =
     \<lparr>getenv_NVIDIA_API_KEY = Some ''nvapi-test'',
      py_str = type_name,
      requests_post = (\<lambda>c. p)\<rparr>"

definition acme_faq :: "(string \<times> json) list" where
  "acme_faq = [(''startupName'', JStr ''Acme''), (''startupDescription'', JStr ''Widgets for robots'')]"

definition acme_startup :: "(string \<times> json) list" where
  "acme_startup =
     [(''startupName'', JStr ''Acme''),
      (''description'', JStr ''Widgets for {robots}''),
      (''targetMarket'', JStr ''Factories''),
      (''businessModel'', JStr ''Subscription''),
      (''competitiveAdvantage'', JStr ''Patents'')]"

text \<open>Provider answers: the stub of the example scenario, and some that are not a completion.\<close>

definition answer :: "nat \<Rightarrow> string \<Rightarrow> string \<Rightarrow> py_exn + json \<Rightarrow> provider_response" where
  "answer code phrase txt parsed =
     \<lparr>status_code = code, reason = phrase, resp_url = NVIDIA_API_URL,
      resp_text = txt, resp_json = parsed\<rparr>"

definition stub_text :: string where
  \<open>stub_text = ''{"choices":[{"message":{"content":"**Q: ..."}}]}''\<close>

definition stub_json :: json where
  "stub_json =
     JObj [(''choices'', JArr [JObj [(''message'', JObj [(''content'', JStr ''**Q: ...'')])]])]"

definition html_text :: string where
  "html_text = ''<html>Bad gateway</html>''"

definition expecting_value :: string where
  "expecting_value = ''Expecting value: line 1 column 1 (char 0)''"

section \<open>Steps shared by the proofs\<close>

lemma validate_startup_no_key:
  "getenv_NVIDIA_API_KEY rt = None \<or> getenv_NVIDIA_API_KEY rt = Some [] \<Longrightarrow>
   validate_startup rt req = api_key_error"
  by (auto simp: validate_startup_def)

lemma generate_faq_no_key:
  "getenv_NVIDIA_API_KEY rt = None \<or> getenv_NVIDIA_API_KEY rt = Some [] \<Longrightarrow>
   generate_faq rt req = api_key_error"
  by (auto simp: generate_faq_def)

lemma validate_startup_dict:
  assumes "getenv_NVIDIA_API_KEY rt = Some k" and "k \<noteq> []"
  shows "validate_startup rt (JsonBody (JObj d)) =
    (if list_all (\<lambda>f. truthy (dict_get d f)) validate_startup_fields
     then except_clauses (call_provider rt ''ai_response'' (validate_startup_sends rt k d))
     else \<lparr>response = jsonify [(''error'', JStr ''Missing one or more required startup details.'')] 400,
           calls = []\<rparr>)"
  using assms
  by (simp add: validate_startup_def validate_startup_try_def try_bind_def validate_startup_fields_def
      validate_startup_sends_def except_clauses_def returned_def)

lemma generate_faq_dict:
  assumes "getenv_NVIDIA_API_KEY rt = Some k" and "k \<noteq> []"
  shows "generate_faq rt (JsonBody (JObj d)) =
    (if list_all (\<lambda>f. truthy (dict_get d f)) generate_faq_fields
     then except_clauses (call_provider rt ''faq_content'' (generate_faq_sends rt k d))
     else \<lparr>response = jsonify [(''error'', JStr ''Missing startup name or description.'')] 400,
           calls = []\<rparr>)"
  using assms
  by (simp add: generate_faq_def generate_faq_try_def try_bind_def generate_faq_fields_def
      generate_faq_sends_def except_clauses_def returned_def)

lemma raise_for_status_2xx:
  "200 \<le> status_code r \<Longrightarrow> status_code r < 300 \<Longrightarrow> raise_for_status r = None"
  by (simp add: raise_for_status_def http_error_msg_def)

lemma raise_for_status_error:
  "400 \<le> status_code r \<Longrightarrow> status_code r < 600 \<Longrightarrow>
   raise_for_status r = Some (RequestException (http_error_msg r))"
  by (simp add: raise_for_status_def http_error_msg_def)

lemma except_request_exception:
  assumes "isinstance_RequestException e"
  shows "except_clauses \<lparr>completion = Raise e, nvidia_response = n, sent = cs\<rparr> =
    \<lparr>response =
       \<lparr>status = 500,
        body = JObj [(''error'', JStr (''NVIDIA API request failed: '' @ str_exn e)),
                     (''details'', JStr (str_exn e))]\<rparr>,
     calls = cs\<rparr>"
  using assms by (simp add: except_clauses_def jsonify_def)

lemma relay_parsed:
  assumes "requests_post rt c = Returns r" and "raise_for_status r = None"
    and "resp_json r = Inr response_data"
  shows "except_clauses (call_provider rt result_key c) =
    except_clauses \<lparr>completion = unwrap result_key response_data,
                     nvidia_response = Some r, sent = [c]\<rparr>"
  using assms by (simp add: call_provider_def)

lemma relay_raised:
  assumes "requests_post rt c = Raises e"
  shows "except_clauses (call_provider rt result_key c) =
    except_clauses \<lparr>completion = Raise e, nvidia_response = None, sent = [c]\<rparr>"
  using assms by (simp add: call_provider_def)

lemma relay_status:
  assumes "requests_post rt c = Returns r" and "raise_for_status r = Some e"
  shows "except_clauses (call_provider rt result_key c) =
    except_clauses \<lparr>completion = Raise e, nvidia_response = Some r, sent = [c]\<rparr>"
  using assms by (simp add: call_provider_def)

lemma relay_undecodable:
  assumes "requests_post rt c = Returns r" and "raise_for_status r = None"
    and "resp_json r = Inl e"
  shows "except_clauses (call_provider rt result_key c) =
    except_clauses \<lparr>completion = Raise e, nvidia_response = Some r, sent = [c]\<rparr>"
  using assms by (simp add: call_provider_def)

lemma calls_call_provider: "calls (except_clauses (call_provider rt result_key c)) = [c]"
  by (simp add: call_provider_def except_clauses_def Let_def
      split: post_result.split option.split sum.split completion.split)

lemma key_in_dict: "k \<in> fst ` set d \<longleftrightarrow> (\<exists>v. map_of d k = Some v)"
  using map_of_eq_None_iff [of d k] by auto

lemma has_choices_dict:
  "has_choices (JObj d) =
     Inr (d \<noteq> [] \<and> (case map_of d ''choices'' of None \<Rightarrow> False | Some c \<Rightarrow> truthy c))"
  by (cases "map_of d ''choices''") (auto simp: has_choices_def key_in_dict)


lemma fmt_str: "fmt rt (JStr s) = s"
  by (simp add: fmt_def)

lemma validate_startup_valid:
  assumes "getenv_NVIDIA_API_KEY rt = Some k" and "k \<noteq> []"
    and "list_all (\<lambda>f. truthy (dict_get d f)) validate_startup_fields"
  shows "validate_startup rt (JsonBody (JObj d)) =
    except_clauses (call_provider rt ''ai_response'' (validate_startup_sends rt k d))"
  using assms by (simp add: validate_startup_dict)

lemma generate_faq_valid:
  assumes "getenv_NVIDIA_API_KEY rt = Some k" and "k \<noteq> []"
    and "list_all (\<lambda>f. truthy (dict_get d f)) generate_faq_fields"
  shows "generate_faq rt (JsonBody (JObj d)) =
    except_clauses (call_provider rt ''faq_content'' (generate_faq_sends rt k d))"
  using assms by (simp add: generate_faq_dict)


lemma undecodable_body_dispatch:
  assumes "getenv_NVIDIA_API_KEY rt = Some k" and "k \<noteq> []"
    and "list_all (\<lambda>f. truthy (dict_get d f)) validate_startup_fields"
    and "requests_post rt (validate_startup_sends rt k d) = Returns r"
    and "200 \<le> status_code r" and "status_code r < 300"
    and "resp_json r = Inl e"
  shows "response (validate_startup rt (JsonBody (JObj d))) =
    (if isinstance_RequestException e then
       jsonify [(''error'', JStr (''NVIDIA API request failed: '' @ str_exn e)),
                (''details'', JStr (str_exn e))] 500
     else if isinstance_JSONDecodeError e then
       jsonify [(''error'', JStr ''Invalid JSON response from NVIDIA API.''),
                (''raw_response'', JStr (resp_text r))] 500
     else
       jsonify [(''error'', JStr (''An unexpected error occurred: '' @ str_exn e)),
                (''details'', JStr (str_exn e))] 500)"
proof -
  have ok: "raise_for_status r = None"
    using assms(5,6) by (rule raise_for_status_2xx)
  have "validate_startup rt (JsonBody (JObj d)) =
      except_clauses \<lparr>completion = Raise e, nvidia_response = Some r,
                       sent = [validate_startup_sends rt k d]\<rparr>"
    by (simp only: validate_startup_valid [OF assms(1,2,3)] relay_undecodable [OF assms(4) ok assms(7)])
  then show ?thesis
    by (simp add: except_clauses_def)
qed

text \<open>
  With requests before 2.27 (and no simplejson) \<^verbatim>\<open>.json()\<close> raises the standard library's
  \<^verbatim>\<open>json.JSONDecodeError\<close>, and the second \<^verbatim>\<open>except\<close> clause hands back the raw text.
\<close>

lemma stdlib_decode_error_raw_response:
  assumes "getenv_NVIDIA_API_KEY rt = Some k" and "k \<noteq> []"
    and "list_all (\<lambda>f. truthy (dict_get d f)) validate_startup_fields"
    and "requests_post rt (validate_startup_sends rt k d) = Returns r"
    and "200 \<le> status_code r" and "status_code r < 300"
    and "resp_json r = Inl (JSONDecodeError m)"
  shows "response (validate_startup rt (JsonBody (JObj d))) =
    \<lparr>status = 500,
     body = JObj [(''error'', JStr ''Invalid JSON response from NVIDIA API.''),
                  (''raw_response'', JStr (resp_text r))]\<rparr>"
  by (simp add: undecodable_body_dispatch [OF assms] jsonify_def)

section \<open>The credential check\<close>

text \<open>
  C5. For every request to either endpoint, if the configured credential
  (\<^verbatim>\<open>NVIDIA_API_KEY\<close>) is absent (or empty, which \<^verbatim>\<open>not NVIDIA_API_KEY\<close> treats alike),
  the handler returns status 500 and makes no call to the provider.
\<close>

theorem missing_credential_no_call:
  assumes "getenv_NVIDIA_API_KEY rt = None \<or> getenv_NVIDIA_API_KEY rt = Some []"
  shows "status (response (validate_startup rt req)) = 500 \<and>
         calls (validate_startup rt req) = [] \<and>
         status (response (generate_faq rt req)) = 500 \<and>
         calls (generate_faq rt req) = []"
  using assms
  by (simp add: validate_startup_no_key generate_faq_no_key api_key_error_def jsonify_def)

theorem missing_credential_no_call_witness:
  "getenv_NVIDIA_API_KEY runtime_no_key = None \<and>
   status (response (validate_startup runtime_no_key (JsonBody (JObj acme_startup)))) = 500 \<and>
   calls (validate_startup runtime_no_key (JsonBody (JObj acme_startup))) = [] \<and>
   status (response (generate_faq runtime_no_key (JsonBody (JObj acme_startup)))) = 500 \<and>
   calls (generate_faq runtime_no_key (JsonBody (JObj acme_startup))) = []"
  using missing_credential_no_call [of runtime_no_key "JsonBody (JObj acme_startup)"]
  by (simp add: runtime_no_key_def)

text \<open>
  C9. The credential check precedes request parsing and validation: with the credential
  absent, whatever the request (a body that does not parse, a body that is no object, a
  body with fields missing), the handler returns the 500 configuration-error response, and
  the 400 validation response is not produced.
\<close>

theorem credential_check_first:
  assumes "getenv_NVIDIA_API_KEY rt = None \<or> getenv_NVIDIA_API_KEY rt = Some []"
  shows "response (validate_startup rt req) =
           \<lparr>status = 500, body = JObj [(''error'', JStr ''NVIDIA_API_KEY is not set in the .env file.'')]\<rparr> \<and>
         status (response (validate_startup rt req)) \<noteq> 400 \<and>
         response (generate_faq rt req) =
           \<lparr>status = 500, body = JObj [(''error'', JStr ''NVIDIA_API_KEY is not set in the .env file.'')]\<rparr> \<and>
         status (response (generate_faq rt req)) \<noteq> 400"
  using assms
  by (simp add: validate_startup_no_key generate_faq_no_key api_key_error_def jsonify_def)

theorem credential_check_first_witness:
  "getenv_NVIDIA_API_KEY runtime_no_key = None \<and>
   response (validate_startup runtime_no_key (JsonBody (JObj []))) =
     \<lparr>status = 500, body = JObj [(''error'', JStr ''NVIDIA_API_KEY is not set in the .env file.'')]\<rparr> \<and>
   status (response (validate_startup runtime_no_key (JsonBody (JObj [])))) \<noteq> 400 \<and>
   response (generate_faq runtime_no_key (JsonBody (JObj []))) =
     \<lparr>status = 500, body = JObj [(''error'', JStr ''NVIDIA_API_KEY is not set in the .env file.'')]\<rparr> \<and>
   status (response (generate_faq runtime_no_key (JsonBody (JObj [])))) \<noteq> 400"
  using credential_check_first [of runtime_no_key "JsonBody (JObj [])"]
  by (simp add: runtime_no_key_def)

section \<open>Request validation\<close>

text \<open>
  C1, as stated, without a condition on the credential: a POST whose body is an object with
  a required field absent gets status 400. Without the credential both handlers answer
  such a body (here the empty object) with status 500.
\<close>

theorem missing_field_without_credential_counterexample:
  "map_of ([] :: (string \<times> json) list) ''startupName'' = None \<and>
   status (response (validate_startup runtime_no_key (JsonBody (JObj [])))) = 500 \<and>
   status (response (generate_faq runtime_no_key (JsonBody (JObj [])))) = 500"
  by (simp add: validate_startup_def generate_faq_def runtime_no_key_def api_key_error_def
      jsonify_def)

text \<open>
  C1, amended. With the credential configured, for every POST to
  \<^verbatim>\<open>/validate_startup\<close> or \<^verbatim>\<open>/generate_faq\<close> whose body parses to a JSON object in which
  a required field is absent or the empty string (or any other falsy value: \<open>dict_get\<close>
  gives \<^verbatim>\<open>None\<close> for an absent key), the handler returns status 400 with exactly the fixed
  message of that endpoint, and no call to the provider is made.
\<close>

theorem missing_field_rejected:
  assumes "getenv_NVIDIA_API_KEY rt = Some k" and "k \<noteq> []"
  shows "(f \<in> set validate_startup_fields \<longrightarrow> \<not> truthy (dict_get d f) \<longrightarrow>
            validate_startup rt (JsonBody (JObj d)) =
              \<lparr>response =
                 \<lparr>status = 400,
                  body = JObj [(''error'', JStr ''Missing one or more required startup details.'')]\<rparr>,
               calls = []\<rparr>) \<and>
         (g \<in> set generate_faq_fields \<longrightarrow> \<not> truthy (dict_get d' g) \<longrightarrow>
            generate_faq rt (JsonBody (JObj d')) =
              \<lparr>response =
                 \<lparr>status = 400,
                  body = JObj [(''error'', JStr ''Missing startup name or description.'')]\<rparr>,
               calls = []\<rparr>)"
proof (intro conjI impI)
  assume "f \<in> set validate_startup_fields" and "\<not> truthy (dict_get d f)"
  then have "\<not> list_all (\<lambda>f. truthy (dict_get d f)) validate_startup_fields"
    by (auto simp: list_all_iff)
  then show "validate_startup rt (JsonBody (JObj d)) =
      \<lparr>response =
         \<lparr>status = 400,
          body = JObj [(''error'', JStr ''Missing one or more required startup details.'')]\<rparr>,
       calls = []\<rparr>"
    using assms by (simp add: validate_startup_dict jsonify_def)
next
  assume "g \<in> set generate_faq_fields" and "\<not> truthy (dict_get d' g)"
  then have "\<not> list_all (\<lambda>f. truthy (dict_get d' f)) generate_faq_fields"
    by (auto simp: list_all_iff)
  then show "generate_faq rt (JsonBody (JObj d')) =
      \<lparr>response =
         \<lparr>status = 400,
          body = JObj [(''error'', JStr ''Missing startup name or description.'')]\<rparr>,
       calls = []\<rparr>"
    using assms by (simp add: generate_faq_dict jsonify_def)
qed

text \<open>
  The witness: a validation request without \<^verbatim>\<open>targetMarket\<close>, and an FAQ request whose
  \<^verbatim>\<open>startupDescription\<close> is the empty string.
\<close>

theorem missing_field_rejected_witness:
  "getenv_NVIDIA_API_KEY (runtime_with (Returns (answer 200 ''OK'' stub_text (Inr stub_json)))) =
     Some ''nvapi-test'' \<and>
   ''targetMarket'' \<in> set validate_startup_fields \<and>
   map_of [(''startupName'', JStr ''Acme''), (''description'', JStr ''Widgets'')] ''targetMarket'' = None \<and>
   validate_startup (runtime_with (Returns (answer 200 ''OK'' stub_text (Inr stub_json))))
       (JsonBody (JObj [(''startupName'', JStr ''Acme''), (''description'', JStr ''Widgets'')])) =
     \<lparr>response =
        \<lparr>status = 400,
         body = JObj [(''error'', JStr ''Missing one or more required startup details.'')]\<rparr>,
      calls = []\<rparr> \<and>
   ''startupDescription'' \<in> set generate_faq_fields \<and>
   generate_faq (runtime_with (Returns (answer 200 ''OK'' stub_text (Inr stub_json))))
       (JsonBody (JObj [(''startupName'', JStr ''Acme''), (''startupDescription'', JStr '''')])) =
     \<lparr>response =
        \<lparr>status = 400,
         body = JObj [(''error'', JStr ''Missing startup name or description.'')]\<rparr>,
      calls = []\<rparr>"
  using missing_field_rejected
    [of "runtime_with (Returns (answer 200 ''OK'' stub_text (Inr stub_json)))" "''nvapi-test''"
      "''targetMarket''" "[(''startupName'', JStr ''Acme''), (''description'', JStr ''Widgets'')]"
      "''startupDescription''" "[(''startupName'', JStr ''Acme''), (''startupDescription'', JStr '''')]"]
  by (simp add: runtime_with_def validate_startup_fields_def generate_faq_fields_def dict_get_def)

text \<open>
  C10, as stated, without a condition on the credential: a POST whose body is JSON
  \<^verbatim>\<open>null\<close> gets the catch-all response (\<^verbatim>\<open>An unexpected error occurred: ...\<close>, with
  \<^verbatim>\<open>details\<close>). Without the credential the answer is the configuration error, which has
  no \<^verbatim>\<open>details\<close>.
\<close>

theorem null_body_without_credential_counterexample:
  "body (response (validate_startup runtime_no_key (JsonBody JNull))) =
     JObj [(''error'', JStr ''NVIDIA_API_KEY is not set in the .env file.'')] \<and>
   body (response (generate_faq runtime_no_key (JsonBody JNull))) =
     JObj [(''error'', JStr ''NVIDIA_API_KEY is not set in the .env file.'')]"
  by (simp add: validate_startup_def generate_faq_def runtime_no_key_def api_key_error_def
      jsonify_def)

text \<open>
  C10, amended. With the credential configured, for every POST to either endpoint whose
  body is not a JSON object (\<^verbatim>\<open>get_json\<close> raises for a body it cannot parse, or returns a
  value that is no dict, such as \<^verbatim>\<open>None\<close> for JSON \<^verbatim>\<open>null\<close>), the handler returns the
  500 catch-all response, with the text of the exception under \<^verbatim>\<open>error\<close> and
  \<^verbatim>\<open>details\<close>, not the 400 validation response, and no call to the provider is made.
\<close>

theorem non_object_body_unexpected_error:
  assumes "getenv_NVIDIA_API_KEY rt = Some k" and "k \<noteq> []"
    and "req = BadBody m \<or> (req = JsonBody v \<and> \<not> is_dict v \<and>
           m = quoted (type_name v) @ '' object has no attribute '' @ quoted ''get'')"
  shows "validate_startup rt req =
           \<lparr>response =
              \<lparr>status = 500,
               body = JObj [(''error'', JStr (''An unexpected error occurred: '' @ m)),
                            (''details'', JStr m)]\<rparr>,
            calls = []\<rparr> \<and>
         generate_faq rt req =
           \<lparr>response =
              \<lparr>status = 500,
               body = JObj [(''error'', JStr (''An unexpected error occurred: '' @ m)),
                            (''details'', JStr m)]\<rparr>,
            calls = []\<rparr>"
proof -
  have "validate_startup_try rt k req = raised (OtherException m) \<and>
        generate_faq_try rt k req = raised (OtherException m)"
    using assms(3)
    by (cases v) (auto simp: validate_startup_try_def generate_faq_try_def try_bind_def)
  then show ?thesis
    using assms(1,2)
    by (simp add: validate_startup_def generate_faq_def except_clauses_def raised_def jsonify_def)
qed

theorem non_object_body_unexpected_error_witness:
  "getenv_NVIDIA_API_KEY (runtime_with (Returns (answer 200 ''OK'' stub_text (Inr stub_json)))) =
     Some ''nvapi-test'' \<and>
   \<not> is_dict JNull \<and>
   validate_startup (runtime_with (Returns (answer 200 ''OK'' stub_text (Inr stub_json))))
       (JsonBody JNull) =
     \<lparr>response =
        \<lparr>status = 500,
         body = JObj [(''error'', JStr (''An unexpected error occurred: '' @
                         quoted ''NoneType'' @ '' object has no attribute '' @ quoted ''get'')),
                      (''details'', JStr (quoted ''NoneType'' @ '' object has no attribute '' @
                         quoted ''get''))]\<rparr>,
      calls = []\<rparr> \<and>
   generate_faq (runtime_with (Returns (answer 200 ''OK'' stub_text (Inr stub_json))))
       (JsonBody JNull) =
     \<lparr>response =
        \<lparr>status = 500,
         body = JObj [(''error'', JStr (''An unexpected error occurred: '' @
                         quoted ''NoneType'' @ '' object has no attribute '' @ quoted ''get'')),
                      (''details'', JStr (quoted ''NoneType'' @ '' object has no attribute '' @
                         quoted ''get''))]\<rparr>,
      calls = []\<rparr>"
  using non_object_body_unexpected_error
    [of "runtime_with (Returns (answer 200 ''OK'' stub_text (Inr stub_json)))" "''nvapi-test''"
      "JsonBody JNull" "quoted ''NoneType'' @ '' object has no attribute '' @ quoted ''get''" JNull]
  by (simp add: runtime_with_def)

section \<open>Mapping the provider's answer\<close>

text \<open>
  C2, as stated: for a request that passes validation and a 2xx response whose body parses
  as JSON containing a non-empty \<^verbatim>\<open>choices\<close> list, the handler returns status 200. For
  the body \<^verbatim>\<open>{"choices": [{}]}\<close> the list is not empty, but its first element has no
  \<^verbatim>\<open>message\<close>: the subscript \<^verbatim>\<open>["message"]\<close> raises a \<^verbatim>\<open>KeyError\<close>, and the last
  \<^verbatim>\<open>except\<close> clause answers with status 500.
\<close>

theorem first_choice_without_message_counterexample:
  "has_choices (JObj [(''choices'', JArr [JObj []])]) = Inr True \<and>
   response (validate_startup
      (runtime_with (Returns (answer 200 ''OK'' [] (Inr (JObj [(''choices'', JArr [JObj []])])))))
      (JsonBody (JObj acme_startup))) =
     \<lparr>status = 500,
      body = JObj [(''error'', JStr (''An unexpected error occurred: '' @ quoted ''message'')),
                   (''details'', JStr (quoted ''message''))]\<rparr> \<and>
   response (generate_faq
      (runtime_with (Returns (answer 200 ''OK'' [] (Inr (JObj [(''choices'', JArr [JObj []])])))))
      (JsonBody (JObj acme_faq))) =
     \<lparr>status = 500,
      body = JObj [(''error'', JStr (''An unexpected error occurred: '' @ quoted ''message'')),
                   (''details'', JStr (quoted ''message''))]\<rparr>"
  by (simp add: validate_startup_def validate_startup_try_def generate_faq_def generate_faq_try_def
      try_bind_def runtime_with_def acme_startup_def acme_faq_def dict_get_def call_provider_def
      answer_def raise_for_status_def http_error_msg_def unwrap_def has_choices_def
      first_choice_content_def except_clauses_def jsonify_def)

text \<open>
  C2, amended. For every request that passes validation (credential configured, body an
  object with every required field truthy), if the provider call returns a 2xx response
  whose body parses as a JSON object containing a non-empty \<^verbatim>\<open>choices\<close> list whose first
  element is an object with a \<^verbatim>\<open>message\<close> object that has a \<^verbatim>\<open>content\<close> \<open>t\<close>, the handler
  returns status 200 with body \<^verbatim>\<open>{"success": true, "ai_response": t}\<close> (validation
  endpoint) or \<^verbatim>\<open>{"success": true, "faq_content": t}\<close> (FAQ endpoint), where \<open>t\<close> is
  exactly that \<^verbatim>\<open>content\<close>, after one call.
\<close>

theorem first_choice_relayed:
  assumes "getenv_NVIDIA_API_KEY rt = Some k" and "k \<noteq> []"
    and "200 \<le> status_code r" and "status_code r < 300"
    and "resp_json r = Inr (JObj response_data)"
    and "map_of response_data ''choices'' = Some (JArr (JObj choice # others))"
    and "map_of choice ''message'' = Some (JObj message)"
    and "map_of message ''content'' = Some t"
  shows "(list_all (\<lambda>f. truthy (dict_get d f)) validate_startup_fields \<longrightarrow>
          requests_post rt (validate_startup_sends rt k d) = Returns r \<longrightarrow>
            validate_startup rt (JsonBody (JObj d)) =
              \<lparr>response =
                 \<lparr>status = 200, body = JObj [(''success'', JBool True), (''ai_response'', t)]\<rparr>,
               calls = [validate_startup_sends rt k d]\<rparr>) \<and>
         (list_all (\<lambda>f. truthy (dict_get d' f)) generate_faq_fields \<longrightarrow>
          requests_post rt (generate_faq_sends rt k d') = Returns r \<longrightarrow>
            generate_faq rt (JsonBody (JObj d')) =
              \<lparr>response =
                 \<lparr>status = 200, body = JObj [(''success'', JBool True), (''faq_content'', t)]\<rparr>,
               calls = [generate_faq_sends rt k d']\<rparr>)"
proof -
  have ok: "raise_for_status r = None"
    using assms(3,4) by (rule raise_for_status_2xx)
  have nonempty: "response_data \<noteq> []"
    using assms(6) by auto
  have test: "has_choices (JObj response_data) = Inr True"
    using assms(6) nonempty by (simp add: has_choices_dict)
  have content: "first_choice_content (JObj response_data) = Inr t"
    using assms(6,7,8) by (simp add: first_choice_content_def)
  have unwrapped: "unwrap result_key (JObj response_data) =
      Return (jsonify [(''success'', JBool True), (result_key, t)] 200)" for result_key
    using test content by (simp add: unwrap_def)
  show ?thesis
  proof (intro conjI impI)
    assume v: "list_all (\<lambda>f. truthy (dict_get d f)) validate_startup_fields"
      and p: "requests_post rt (validate_startup_sends rt k d) = Returns r"
    have "validate_startup rt (JsonBody (JObj d)) =
        except_clauses \<lparr>completion = unwrap ''ai_response'' (JObj response_data),
                         nvidia_response = Some r, sent = [validate_startup_sends rt k d]\<rparr>"
      by (simp only: validate_startup_valid [OF assms(1,2) v] relay_parsed [OF p ok assms(5)])
    then show "validate_startup rt (JsonBody (JObj d)) =
        \<lparr>response =
           \<lparr>status = 200, body = JObj [(''success'', JBool True), (''ai_response'', t)]\<rparr>,
         calls = [validate_startup_sends rt k d]\<rparr>"
      by (simp add: unwrapped except_clauses_def jsonify_def)
  next
    assume v: "list_all (\<lambda>f. truthy (dict_get d' f)) generate_faq_fields"
      and p: "requests_post rt (generate_faq_sends rt k d') = Returns r"
    have "generate_faq rt (JsonBody (JObj d')) =
        except_clauses \<lparr>completion = unwrap ''faq_content'' (JObj response_data),
                         nvidia_response = Some r, sent = [generate_faq_sends rt k d']\<rparr>"
      by (simp only: generate_faq_valid [OF assms(1,2) v] relay_parsed [OF p ok assms(5)])
    then show "generate_faq rt (JsonBody (JObj d')) =
        \<lparr>response =
           \<lparr>status = 200, body = JObj [(''success'', JBool True), (''faq_content'', t)]\<rparr>,
         calls = [generate_faq_sends rt k d']\<rparr>"
      by (simp add: unwrapped except_clauses_def jsonify_def)
  qed
qed

text \<open>The witness is the example scenario: the stub provider and the Acme requests.\<close>

theorem first_choice_relayed_witness:
  "list_all (\<lambda>f. truthy (dict_get acme_startup f)) validate_startup_fields \<and>
   list_all (\<lambda>f. truthy (dict_get acme_faq f)) generate_faq_fields \<and>
   resp_json (answer 200 ''OK'' stub_text (Inr stub_json)) = Inr stub_json \<and>
   validate_startup (runtime_with (Returns (answer 200 ''OK'' stub_text (Inr stub_json))))
       (JsonBody (JObj acme_startup)) =
     \<lparr>response =
        \<lparr>status = 200,
         body = JObj [(''success'', JBool True), (''ai_response'', JStr ''**Q: ...'')]\<rparr>,
      calls =
        [validate_startup_sends
           (runtime_with (Returns (answer 200 ''OK'' stub_text (Inr stub_json))))
           ''nvapi-test'' acme_startup]\<rparr> \<and>
   generate_faq (runtime_with (Returns (answer 200 ''OK'' stub_text (Inr stub_json))))
       (JsonBody (JObj acme_faq)) =
     \<lparr>response =
        \<lparr>status = 200,
         body = JObj [(''success'', JBool True), (''faq_content'', JStr ''**Q: ...'')]\<rparr>,
      calls =
        [generate_faq_sends
           (runtime_with (Returns (answer 200 ''OK'' stub_text (Inr stub_json))))
           ''nvapi-test'' acme_faq]\<rparr>"
proof -
  let ?r = "answer 200 ''OK'' stub_text (Inr stub_json)"
  let ?rt = "runtime_with (Returns ?r)"
  have v: "list_all (\<lambda>f. truthy (dict_get acme_startup f)) validate_startup_fields"
    by (simp add: validate_startup_fields_def acme_startup_def dict_get_def)
  have g: "list_all (\<lambda>f. truthy (dict_get acme_faq f)) generate_faq_fields"
    by (simp add: generate_faq_fields_def acme_faq_def dict_get_def)
  have p: "requests_post ?rt c = Returns ?r" for c
    by (simp add: runtime_with_def)
  have "getenv_NVIDIA_API_KEY ?rt = Some ''nvapi-test''" and "''nvapi-test'' \<noteq> []"
    and "200 \<le> status_code ?r" and "status_code ?r < 300"
    and "resp_json ?r =
           Inr (JObj [(''choices'', JArr [JObj [(''message'', JObj [(''content'', JStr ''**Q: ...'')])]])])"
    and "map_of [(''choices'', JArr [JObj [(''message'', JObj [(''content'', JStr ''**Q: ...'')])]])]
           ''choices'' = Some (JArr (JObj [(''message'', JObj [(''content'', JStr ''**Q: ...'')])] # []))"
    and "map_of [(''message'', JObj [(''content'', JStr ''**Q: ...'')])] ''message'' =
           Some (JObj [(''content'', JStr ''**Q: ...'')])"
    and "map_of [(''content'', JStr ''**Q: ...'')] ''content'' = Some (JStr ''**Q: ...'')"
    by (simp_all add: runtime_with_def answer_def stub_json_def)
  from first_choice_relayed [OF this, of acme_startup acme_faq] v g p
  show ?thesis
    by (simp add: answer_def)
qed

text \<open>
  C3. For a request that passes validation and a 2xx response whose body is not JSON, the
  claim expects status 500 with the raw response text under \<^verbatim>\<open>raw_response\<close>. What
  \<^verbatim>\<open>.json()\<close> raises since requests 2.27 is \<^verbatim>\<open>requests.exceptions.JSONDecodeError\<close>, a
  \<^verbatim>\<open>RequestException\<close>, so the first \<^verbatim>\<open>except\<close> clause answers, with the text of the
  exception under \<^verbatim>\<open>error\<close> and \<^verbatim>\<open>details\<close> and no \<^verbatim>\<open>raw_response\<close>: here for an HTML
  body with status 200.
\<close>

theorem undecodable_body_reported_as_request_failure:
  "response (validate_startup
      (runtime_with (Returns (answer 200 ''OK'' html_text (Inl (RequestsJSONDecodeError expecting_value)))))
      (JsonBody (JObj acme_startup))) =
     \<lparr>status = 500,
      body = JObj [(''error'', JStr (''NVIDIA API request failed: '' @ expecting_value)),
                   (''details'', JStr expecting_value)]\<rparr> \<and>
   response (generate_faq
      (runtime_with (Returns (answer 200 ''OK'' html_text (Inl (RequestsJSONDecodeError expecting_value)))))
      (JsonBody (JObj acme_faq))) =
     \<lparr>status = 500,
      body = JObj [(''error'', JStr (''NVIDIA API request failed: '' @ expecting_value)),
                   (''details'', JStr expecting_value)]\<rparr>"
  by (simp add: validate_startup_def validate_startup_try_def generate_faq_def generate_faq_try_def
      try_bind_def runtime_with_def acme_startup_def acme_faq_def dict_get_def call_provider_def
      answer_def raise_for_status_def http_error_msg_def except_clauses_def jsonify_def)




section \<open>Failures of the provider call\<close>

text \<open>
  C6, as stated: a request that passes validation and a provider that returns a status
  outside 2xx give status 500. \<^verbatim>\<open>raise_for_status()\<close> raises for 4xx and 5xx only: a
  response with status 300 and a completion in its body is relayed with status 200.
\<close>

theorem status_300_counterexample:
  "status_code (answer 300 ''Multiple Choices'' stub_text (Inr stub_json)) = 300 \<and>
   response (validate_startup
       (runtime_with (Returns (answer 300 ''Multiple Choices'' stub_text (Inr stub_json))))
       (JsonBody (JObj acme_startup))) =
     \<lparr>status = 200, body = JObj [(''success'', JBool True), (''ai_response'', JStr ''**Q: ...'')]\<rparr> \<and>
   response (generate_faq
       (runtime_with (Returns (answer 300 ''Multiple Choices'' stub_text (Inr stub_json))))
       (JsonBody (JObj acme_faq))) =
     \<lparr>status = 200, body = JObj [(''success'', JBool True), (''faq_content'', JStr ''**Q: ...'')]\<rparr>"
  by (simp add: validate_startup_def validate_startup_try_def generate_faq_def generate_faq_try_def
      try_bind_def runtime_with_def acme_startup_def acme_faq_def dict_get_def call_provider_def
      answer_def raise_for_status_def http_error_msg_def stub_json_def unwrap_def has_choices_def
      first_choice_content_def except_clauses_def jsonify_def)

text \<open>
  C6, amended. For every request that passes validation, if the provider call raises a
  transport error (a \<^verbatim>\<open>RequestException\<close>: connection failure, timeout after 60 seconds)
  or returns a status from 400 to 599, the handler returns status 500 with the text \<open>m\<close> of
  the error (of the exception, or the message of the \<^verbatim>\<open>HTTPError\<close>) in the body, and
  exactly one call is made (no retry).
\<close>

theorem provider_failure_reported:
  assumes "getenv_NVIDIA_API_KEY rt = Some k" and "k \<noteq> []"
    and "(p = Raises e \<and> isinstance_RequestException e \<and> m = str_exn e) \<or>
         (p = Returns r \<and> 400 \<le> status_code r \<and> status_code r < 600 \<and> m = http_error_msg r)"
  shows "(list_all (\<lambda>f. truthy (dict_get d f)) validate_startup_fields \<longrightarrow>
          requests_post rt (validate_startup_sends rt k d) = p \<longrightarrow>
            validate_startup rt (JsonBody (JObj d)) =
              \<lparr>response =
                 \<lparr>status = 500,
                  body = JObj [(''error'', JStr (''NVIDIA API request failed: '' @ m)),
                               (''details'', JStr m)]\<rparr>,
               calls = [validate_startup_sends rt k d]\<rparr>) \<and>
         (list_all (\<lambda>f. truthy (dict_get d' f)) generate_faq_fields \<longrightarrow>
          requests_post rt (generate_faq_sends rt k d') = p \<longrightarrow>
            generate_faq rt (JsonBody (JObj d')) =
              \<lparr>response =
                 \<lparr>status = 500,
                  body = JObj [(''error'', JStr (''NVIDIA API request failed: '' @ m)),
                               (''details'', JStr m)]\<rparr>,
               calls = [generate_faq_sends rt k d']\<rparr>)"
proof -
  have relay: "except_clauses (call_provider rt result_key c) =
      \<lparr>response =
         \<lparr>status = 500,
          body = JObj [(''error'', JStr (''NVIDIA API request failed: '' @ m)),
                       (''details'', JStr m)]\<rparr>,
       calls = [c]\<rparr>" if "requests_post rt c = p" for result_key c
    using assms(3)
  proof (elim disjE conjE)
    assume "p = Raises e" and "isinstance_RequestException e" and "m = str_exn e"
    then show ?thesis
      using that by (simp add: relay_raised except_request_exception)
  next
    assume "p = Returns r" and "400 \<le> status_code r" and "status_code r < 600"
      and "m = http_error_msg r"
    then show ?thesis
      using that by (simp add: relay_status [OF _ raise_for_status_error] except_request_exception)
  qed
  show ?thesis
    using assms(1,2) by (simp add: validate_startup_valid generate_faq_valid relay)
qed

text \<open>The witness: the call times out.\<close>

theorem provider_failure_reported_witness:
  "list_all (\<lambda>f. truthy (dict_get acme_startup f)) validate_startup_fields \<and>
   list_all (\<lambda>f. truthy (dict_get acme_faq f)) generate_faq_fields \<and>
   isinstance_RequestException (RequestException ''Read timed out. (read timeout=60)'') \<and>
   validate_startup (runtime_with (Raises (RequestException ''Read timed out. (read timeout=60)'')))
       (JsonBody (JObj acme_startup)) =
     \<lparr>response =
        \<lparr>status = 500,
         body = JObj [(''error'', JStr (''NVIDIA API request failed: '' @
                         ''Read timed out. (read timeout=60)'')),
                      (''details'', JStr ''Read timed out. (read timeout=60)'')]\<rparr>,
      calls =
        [validate_startup_sends
           (runtime_with (Raises (RequestException ''Read timed out. (read timeout=60)'')))
           ''nvapi-test'' acme_startup]\<rparr> \<and>
   generate_faq (runtime_with (Raises (RequestException ''Read timed out. (read timeout=60)'')))
       (JsonBody (JObj acme_faq)) =
     \<lparr>response =
        \<lparr>status = 500,
         body = JObj [(''error'', JStr (''NVIDIA API request failed: '' @
                         ''Read timed out. (read timeout=60)'')),
                      (''details'', JStr ''Read timed out. (read timeout=60)'')]\<rparr>,
      calls =
        [generate_faq_sends
           (runtime_with (Raises (RequestException ''Read timed out. (read timeout=60)'')))
           ''nvapi-test'' acme_faq]\<rparr>"
proof -
  let ?e = "RequestException ''Read timed out. (read timeout=60)''"
  let ?rt = "runtime_with (Raises ?e)"
  let ?r = "answer 503 ''Service Unavailable'' html_text (Inl (RequestsJSONDecodeError expecting_value))"
  have v: "list_all (\<lambda>f. truthy (dict_get acme_startup f)) validate_startup_fields"
    by (simp add: validate_startup_fields_def acme_startup_def dict_get_def)
  have g: "list_all (\<lambda>f. truthy (dict_get acme_faq f)) generate_faq_fields"
    by (simp add: generate_faq_fields_def acme_faq_def dict_get_def)
  have p: "requests_post ?rt c = Raises ?e" for c
    by (simp add: runtime_with_def)
  have "getenv_NVIDIA_API_KEY ?rt = Some ''nvapi-test''" and "''nvapi-test'' \<noteq> []"
    and "(Raises ?e = Raises ?e \<and> isinstance_RequestException ?e \<and>
            ''Read timed out. (read timeout=60)'' = str_exn ?e) \<or>
         (Raises ?e = Returns ?r \<and> 400 \<le> status_code ?r \<and> status_code ?r < 600 \<and>
            ''Read timed out. (read timeout=60)'' = http_error_msg ?r)"
    by (simp_all add: runtime_with_def)
  from provider_failure_reported [OF this, of acme_startup acme_faq] v g p
  show ?thesis
    by simp
qed

text \<open>The message of the \<^verbatim>\<open>HTTPError\<close> for a 404.\<close>

lemma http_error_msg_404:
  "http_error_msg (answer 404 ''Not Found'' '''' (Inl (RequestsJSONDecodeError expecting_value))) =
     ''404 Client Error: Not Found for url: '' @ NVIDIA_API_URL"
proof -
  have "decimal 404 = ''404''"
    by code_simp
  then show ?thesis
    by (simp add: http_error_msg_def answer_def)
qed

section \<open>The outbound request\<close>

text \<open>
  C7. For every validated request, exactly one call is made, with a 60-second timeout, and
  its payload has temperature 0.7, top_p 0.9, stream false, a single user-role message whose
  content is the rendered prompt, and max_tokens 1024 for the validation endpoint and 1000
  for the FAQ endpoint.
\<close>

theorem outbound_payload_fixed:
  assumes "getenv_NVIDIA_API_KEY rt = Some k" and "k \<noteq> []"
  shows "(list_all (\<lambda>f. truthy (dict_get d f)) validate_startup_fields \<longrightarrow>
            calls (validate_startup rt (JsonBody (JObj d))) =
              [\<lparr>url = ''https://integrate.api.nvidia.com/v1/chat/completions'',
                headers = [(''Authorization'', ''Bearer '' @ k),
                           (''Accept'', ''application/json''),
                           (''Content-Type'', ''application/json'')],
                json_payload =
                  JObj [(''model'', JStr ''meta/llama3-8b-instruct''),
                        (''messages'',
                           JArr [JObj [(''role'', JStr ''user''),
                                       (''content'',
                                          JStr (validator_prompt
                                            (fmt rt (dict_get d ''startupName''))
                                            (fmt rt (dict_get d ''description''))
                                            (fmt rt (dict_get d ''targetMarket''))
                                            (fmt rt (dict_get d ''businessModel''))
                                            (fmt rt (dict_get d ''competitiveAdvantage''))))]]),
                        (''temperature'', JFloat ''0.7''),
                        (''top_p'', JFloat ''0.9''),
                        (''max_tokens'', JInt 1024),
                        (''stream'', JBool False)],
                timeout = 60\<rparr>]) \<and>
         (list_all (\<lambda>f. truthy (dict_get d' f)) generate_faq_fields \<longrightarrow>
            calls (generate_faq rt (JsonBody (JObj d'))) =
              [\<lparr>url = ''https://integrate.api.nvidia.com/v1/chat/completions'',
                headers = [(''Authorization'', ''Bearer '' @ k),
                           (''Accept'', ''application/json''),
                           (''Content-Type'', ''application/json'')],
                json_payload =
                  JObj [(''model'', JStr ''meta/llama3-8b-instruct''),
                        (''messages'',
                           JArr [JObj [(''role'', JStr ''user''),
                                       (''content'',
                                          JStr (faq_prompt
                                            (fmt rt (dict_get d' ''startupName''))
                                            (fmt rt (dict_get d' ''startupDescription''))))]]),
                        (''temperature'', JFloat ''0.7''),
                        (''top_p'', JFloat ''0.9''),
                        (''max_tokens'', JInt 1000),
                        (''stream'', JBool False)],
                timeout = 60\<rparr>])"
proof (intro conjI impI)
  assume "list_all (\<lambda>f. truthy (dict_get d f)) validate_startup_fields"
  then have "calls (validate_startup rt (JsonBody (JObj d))) = [validate_startup_sends rt k d]"
    using assms by (simp add: validate_startup_valid calls_call_provider)
  then show "calls (validate_startup rt (JsonBody (JObj d))) =
      [\<lparr>url = ''https://integrate.api.nvidia.com/v1/chat/completions'',
        headers = [(''Authorization'', ''Bearer '' @ k),
                   (''Accept'', ''application/json''),
                   (''Content-Type'', ''application/json'')],
        json_payload =
          JObj [(''model'', JStr ''meta/llama3-8b-instruct''),
                (''messages'',
                   JArr [JObj [(''role'', JStr ''user''),
                               (''content'',
                                  JStr (validator_prompt
                                    (fmt rt (dict_get d ''startupName''))
                                    (fmt rt (dict_get d ''description''))
                                    (fmt rt (dict_get d ''targetMarket''))
                                    (fmt rt (dict_get d ''businessModel''))
                                    (fmt rt (dict_get d ''competitiveAdvantage''))))]]),
                (''temperature'', JFloat ''0.7''),
                (''top_p'', JFloat ''0.9''),
                (''max_tokens'', JInt 1024),
                (''stream'', JBool False)],
        timeout = 60\<rparr>]"
    by (simp add: validate_startup_sends_def validate_startup_call_def make_headers_def
        make_payload_def NVIDIA_API_URL_def NVIDIA_MODEL_NAME_def)
next
  assume "list_all (\<lambda>f. truthy (dict_get d' f)) generate_faq_fields"
  then have "calls (generate_faq rt (JsonBody (JObj d'))) = [generate_faq_sends rt k d']"
    using assms by (simp add: generate_faq_valid calls_call_provider)
  then show "calls (generate_faq rt (JsonBody (JObj d'))) =
      [\<lparr>url = ''https://integrate.api.nvidia.com/v1/chat/completions'',
        headers = [(''Authorization'', ''Bearer '' @ k),
                   (''Accept'', ''application/json''),
                   (''Content-Type'', ''application/json'')],
        json_payload =
          JObj [(''model'', JStr ''meta/llama3-8b-instruct''),
                (''messages'',
                   JArr [JObj [(''role'', JStr ''user''),
                               (''content'',
                                  JStr (faq_prompt
                                    (fmt rt (dict_get d' ''startupName''))
                                    (fmt rt (dict_get d' ''startupDescription''))))]]),
                (''temperature'', JFloat ''0.7''),
                (''top_p'', JFloat ''0.9''),
                (''max_tokens'', JInt 1000),
                (''stream'', JBool False)],
        timeout = 60\<rparr>]"
    by (simp add: generate_faq_sends_def generate_faq_call_def make_headers_def
        make_payload_def NVIDIA_API_URL_def NVIDIA_MODEL_NAME_def)
qed

theorem outbound_payload_fixed_witness:
  "list_all (\<lambda>f. truthy (dict_get acme_startup f)) validate_startup_fields \<and>
   list_all (\<lambda>f. truthy (dict_get acme_faq f)) generate_faq_fields \<and>
   map timeout (calls (validate_startup
       (runtime_with (Raises (RequestException ''connection refused'')))
       (JsonBody (JObj acme_startup)))) = [60] \<and>
   map json_payload (calls (validate_startup
       (runtime_with (Raises (RequestException ''connection refused'')))
       (JsonBody (JObj acme_startup)))) =
     [JObj [(''model'', JStr ''meta/llama3-8b-instruct''),
            (''messages'',
               JArr [JObj [(''role'', JStr ''user''),
                           (''content'',
                              JStr (validator_prompt ''Acme'' ''Widgets for {robots}'' ''Factories''
                                ''Subscription'' ''Patents''))]]),
            (''temperature'', JFloat ''0.7''),
            (''top_p'', JFloat ''0.9''),
            (''max_tokens'', JInt 1024),
            (''stream'', JBool False)]] \<and>
   map timeout (calls (generate_faq
       (runtime_with (Raises (RequestException ''connection refused'')))
       (JsonBody (JObj acme_faq)))) = [60] \<and>
   map json_payload (calls (generate_faq
       (runtime_with (Raises (RequestException ''connection refused'')))
       (JsonBody (JObj acme_faq)))) =
     [JObj [(''model'', JStr ''meta/llama3-8b-instruct''),
            (''messages'',
               JArr [JObj [(''role'', JStr ''user''),
                           (''content'', JStr (faq_prompt ''Acme'' ''Widgets for robots''))]]),
            (''temperature'', JFloat ''0.7''),
            (''top_p'', JFloat ''0.9''),
            (''max_tokens'', JInt 1000),
            (''stream'', JBool False)]]"
proof -
  let ?rt = "runtime_with (Raises (RequestException ''connection refused''))"
  have v: "list_all (\<lambda>f. truthy (dict_get acme_startup f)) validate_startup_fields"
    by (simp add: validate_startup_fields_def acme_startup_def dict_get_def)
  have g: "list_all (\<lambda>f. truthy (dict_get acme_faq f)) generate_faq_fields"
    by (simp add: generate_faq_fields_def acme_faq_def dict_get_def)
  have fields:
    "fmt ?rt (dict_get acme_startup ''startupName'') = ''Acme''"
    "fmt ?rt (dict_get acme_startup ''description'') = ''Widgets for {robots}''"
    "fmt ?rt (dict_get acme_startup ''targetMarket'') = ''Factories''"
    "fmt ?rt (dict_get acme_startup ''businessModel'') = ''Subscription''"
    "fmt ?rt (dict_get acme_startup ''competitiveAdvantage'') = ''Patents''"
    "fmt ?rt (dict_get acme_faq ''startupName'') = ''Acme''"
    "fmt ?rt (dict_get acme_faq ''startupDescription'') = ''Widgets for robots''"
    by (simp_all add: acme_startup_def acme_faq_def dict_get_def fmt_def)
  have "getenv_NVIDIA_API_KEY ?rt = Some ''nvapi-test''" and "''nvapi-test'' \<noteq> []"
    by (simp_all add: runtime_with_def)
  from outbound_payload_fixed [OF this, of acme_startup acme_faq] v g
  show ?thesis
    by (simp add: fields)
qed

section \<open>The rendered prompt\<close>

text \<open>
  C8. For every request in which all required fields are present non-empty strings of any
  content, the prompt sent to the provider is the template with each field value put in as
  it is: the literal text of the template around the values, concatenated, so that each
  value is a contiguous substring of the prompt, unchanged.
\<close>

theorem prompt_verbatim:
  assumes "getenv_NVIDIA_API_KEY rt = Some k" and "k \<noteq> []"
  shows "(map_of d ''startupName'' = Some (JStr startup_name) \<and> startup_name \<noteq> [] \<and>
          map_of d ''description'' = Some (JStr description) \<and> description \<noteq> [] \<and>
          map_of d ''targetMarket'' = Some (JStr target_market) \<and> target_market \<noteq> [] \<and>
          map_of d ''businessModel'' = Some (JStr business_model) \<and> business_model \<noteq> [] \<and>
          map_of d ''competitiveAdvantage'' = Some (JStr competitive_advantage) \<and>
          competitive_advantage \<noteq> [] \<longrightarrow>
            map json_payload (calls (validate_startup rt (JsonBody (JObj d)))) =
              [make_payload
                 (validator_text_0 @ startup_name @
                  validator_text_1 @ description @
                  validator_text_2 @ target_market @
                  validator_text_3 @ business_model @
                  validator_text_4 @ competitive_advantage @
                  validator_text_5) 1024] \<and>
            sublist startup_name
              (validator_prompt startup_name description target_market business_model
                 competitive_advantage) \<and>
            sublist description
              (validator_prompt startup_name description target_market business_model
                 competitive_advantage) \<and>
            sublist target_market
              (validator_prompt startup_name description target_market business_model
                 competitive_advantage) \<and>
            sublist business_model
              (validator_prompt startup_name description target_market business_model
                 competitive_advantage) \<and>
            sublist competitive_advantage
              (validator_prompt startup_name description target_market business_model
                 competitive_advantage)) \<and>
         (map_of d' ''startupName'' = Some (JStr faq_name) \<and> faq_name \<noteq> [] \<and>
          map_of d' ''startupDescription'' = Some (JStr startup_description) \<and>
          startup_description \<noteq> [] \<longrightarrow>
            map json_payload (calls (generate_faq rt (JsonBody (JObj d')))) =
              [make_payload
                 (faq_text_0 @ faq_name @ faq_text_1 @ startup_description @ faq_text_2) 1000] \<and>
            sublist faq_name (faq_prompt faq_name startup_description) \<and>
            sublist startup_description (faq_prompt faq_name startup_description))"
proof (intro conjI impI)
  assume fields: "map_of d ''startupName'' = Some (JStr startup_name) \<and> startup_name \<noteq> [] \<and>
      map_of d ''description'' = Some (JStr description) \<and> description \<noteq> [] \<and>
      map_of d ''targetMarket'' = Some (JStr target_market) \<and> target_market \<noteq> [] \<and>
      map_of d ''businessModel'' = Some (JStr business_model) \<and> business_model \<noteq> [] \<and>
      map_of d ''competitiveAdvantage'' = Some (JStr competitive_advantage) \<and>
      competitive_advantage \<noteq> []"
  then have v: "list_all (\<lambda>f. truthy (dict_get d f)) validate_startup_fields"
    by (simp add: validate_startup_fields_def dict_get_def)
  have "calls (validate_startup rt (JsonBody (JObj d))) = [validate_startup_sends rt k d]"
    using assms v by (simp add: validate_startup_valid calls_call_provider)
  then show "map json_payload (calls (validate_startup rt (JsonBody (JObj d)))) =
      [make_payload
         (validator_text_0 @ startup_name @
          validator_text_1 @ description @
          validator_text_2 @ target_market @
          validator_text_3 @ business_model @
          validator_text_4 @ competitive_advantage @
          validator_text_5) 1024]"
    using fields
    by (simp add: validate_startup_sends_def validate_startup_call_def validator_prompt_def
        dict_get_def fmt_str)
next
  show "sublist startup_name
      (validator_prompt startup_name description target_market business_model competitive_advantage)"
    unfolding validator_prompt_def by (rule sublist_appendI)
next
  have "validator_prompt startup_name description target_market business_model competitive_advantage =
      (validator_text_0 @ startup_name @ validator_text_1) @ description @
      (validator_text_2 @ target_market @ validator_text_3 @ business_model @
       validator_text_4 @ competitive_advantage @ validator_text_5)"
    by (simp add: validator_prompt_def)
  then show "sublist description
      (validator_prompt startup_name description target_market business_model competitive_advantage)"
    by (simp only: sublist_appendI)
next
  have "validator_prompt startup_name description target_market business_model competitive_advantage =
      (validator_text_0 @ startup_name @ validator_text_1 @ description @ validator_text_2) @
      target_market @
      (validator_text_3 @ business_model @ validator_text_4 @ competitive_advantage @
       validator_text_5)"
    by (simp add: validator_prompt_def)
  then show "sublist target_market
      (validator_prompt startup_name description target_market business_model competitive_advantage)"
    by (simp only: sublist_appendI)
next
  have "validator_prompt startup_name description target_market business_model competitive_advantage =
      (validator_text_0 @ startup_name @ validator_text_1 @ description @ validator_text_2 @
       target_market @ validator_text_3) @
      business_model @
      (validator_text_4 @ competitive_advantage @ validator_text_5)"
    by (simp add: validator_prompt_def)
  then show "sublist business_model
      (validator_prompt startup_name description target_market business_model competitive_advantage)"
    by (simp only: sublist_appendI)
next
  have "validator_prompt startup_name description target_market business_model competitive_advantage =
      (validator_text_0 @ startup_name @ validator_text_1 @ description @ validator_text_2 @
       target_market @ validator_text_3 @ business_model @ validator_text_4) @
      competitive_advantage @ validator_text_5"
    by (simp add: validator_prompt_def)
  then show "sublist competitive_advantage
      (validator_prompt startup_name description target_market business_model competitive_advantage)"
    by (simp only: sublist_appendI)
next
  assume fields: "map_of d' ''startupName'' = Some (JStr faq_name) \<and> faq_name \<noteq> [] \<and>
      map_of d' ''startupDescription'' = Some (JStr startup_description) \<and>
      startup_description \<noteq> []"
  then have v: "list_all (\<lambda>f. truthy (dict_get d' f)) generate_faq_fields"
    by (simp add: generate_faq_fields_def dict_get_def)
  have "calls (generate_faq rt (JsonBody (JObj d'))) = [generate_faq_sends rt k d']"
    using assms v by (simp add: generate_faq_valid calls_call_provider)
  then show "map json_payload (calls (generate_faq rt (JsonBody (JObj d')))) =
      [make_payload
         (faq_text_0 @ faq_name @ faq_text_1 @ startup_description @ faq_text_2) 1000]"
    using fields
    by (simp add: generate_faq_sends_def generate_faq_call_def faq_prompt_def dict_get_def fmt_str)
next
  show "sublist faq_name (faq_prompt faq_name startup_description)"
    unfolding faq_prompt_def by (rule sublist_appendI)
next
  have "faq_prompt faq_name startup_description =
      (faq_text_0 @ faq_name @ faq_text_1) @ startup_description @ faq_text_2"
    by (simp add: faq_prompt_def)
  then show "sublist startup_description (faq_prompt faq_name startup_description)"
    by (simp only: sublist_appendI)
qed

text \<open>The witness: the description holds braces, as a template delimiter would.\<close>

theorem prompt_verbatim_witness:
  "map_of acme_startup ''description'' = Some (JStr ''Widgets for {robots}'') \<and>
   map json_payload (calls (validate_startup
       (runtime_with (Raises (RequestException ''connection refused'')))
       (JsonBody (JObj acme_startup)))) =
     [make_payload
        (validator_text_0 @ ''Acme'' @
         validator_text_1 @ ''Widgets for {robots}'' @
         validator_text_2 @ ''Factories'' @
         validator_text_3 @ ''Subscription'' @
         validator_text_4 @ ''Patents'' @
         validator_text_5) 1024] \<and>
   sublist ''Widgets for {robots}''
     (validator_prompt ''Acme'' ''Widgets for {robots}'' ''Factories'' ''Subscription'' ''Patents'') \<and>
   map json_payload (calls (generate_faq
       (runtime_with (Raises (RequestException ''connection refused'')))
       (JsonBody (JObj acme_faq)))) =
     [make_payload (faq_text_0 @ ''Acme'' @ faq_text_1 @ ''Widgets for robots'' @ faq_text_2) 1000] \<and>
   sublist ''Widgets for robots'' (faq_prompt ''Acme'' ''Widgets for robots'')"
proof -
  let ?rt = "runtime_with (Raises (RequestException ''connection refused''))"
  have fields:
    "map_of acme_startup ''startupName'' = Some (JStr ''Acme'')"
    "map_of acme_startup ''description'' = Some (JStr ''Widgets for {robots}'')"
    "map_of acme_startup ''targetMarket'' = Some (JStr ''Factories'')"
    "map_of acme_startup ''businessModel'' = Some (JStr ''Subscription'')"
    "map_of acme_startup ''competitiveAdvantage'' = Some (JStr ''Patents'')"
    "map_of acme_faq ''startupName'' = Some (JStr ''Acme'')"
    "map_of acme_faq ''startupDescription'' = Some (JStr ''Widgets for robots'')"
    by (simp_all add: acme_startup_def acme_faq_def)
  have "getenv_NVIDIA_API_KEY ?rt = Some ''nvapi-test''" and "''nvapi-test'' \<noteq> []"
    by (simp_all add: runtime_with_def)
  from prompt_verbatim [OF this,
      where d = acme_startup and startup_name = "''Acme''"
        and description = "''Widgets for {robots}''" and target_market = "''Factories''"
        and business_model = "''Subscription''" and competitive_advantage = "''Patents''"
        and d' = acme_faq and faq_name = "''Acme''"
        and startup_description = "''Widgets for robots''"]
    fields
  show ?thesis
    by simp
qed

end
